theory Spec2Isabelle
  imports Complex_Main
begin

section \<open>Data model of the farm-boundary screen\<close>

text \<open>
  The screen is the React component \<open>Travel\<close> of \<open>travel/index.jsx\<close>. Its state is the
  tuple of \<open>useState\<close> cells; every handler is a function from the state of the render
  in which it was created to the state of the next render. Calls to the collaborators
  (location provider, router, map widget, alert, console) are recorded as a list of
  effects in the order in which the code issues them. The outcome of an awaited promise
  is an argument of the handler that awaits it.

  JavaScript numbers are carried around by this screen and never computed with; a number
  is modelled by the real number its literal denotes.
\<close>

record LatLng =
  latitude :: real
  longitude :: real

record Region = LatLng +
  latitudeDelta :: real
  longitudeDelta :: real

record Location =
  coords :: LatLng

record PermissionResponse =
  status :: string

record NativeEvent =
  coordinate :: LatLng

record PressEvent =
  nativeEvent :: NativeEvent

datatype Accuracy = Lowest | Low | Balanced | High | Highest | BestForNavigation

record PositionOptions =
  accuracy :: Accuracy
  maximumAge :: "nat option"

text \<open>The outcome of \<open>await p\<close>: the value of the promise, or the error it throws.\<close>

datatype 'a awaited = Resolved 'a | Rejected string

datatype effect =
    RequestForegroundPermissions
  | GetCurrentPosition PositionOptions
  | RouterPush string "(string \<times> string) list"
  | Alert string
  | ConsoleError string string
  | AnimateToRegion Region nat

record state =
  region :: "Region option"
  polygonPoints :: "LatLng list"
  isSelecting :: bool
  loading :: bool
  loadingLocation :: bool
  errorMsg :: "string option"

text \<open>The arguments of the six \<open>useState\<close> calls.\<close>

definition initial_state :: state where
  "initial_state =
     \<lparr>region = None, polygonPoints = [], isSelecting = True,
      loading = True, loadingLocation = True, errorMsg = None\<rparr>"

section \<open>The mount effect\<close>

definition default_region :: Region where
  "default_region =
     \<lparr>latitude = 37.78825, longitude = -122.4324,
      latitudeDelta = 0.015, longitudeDelta = 0.0121\<rparr>"

definition region_at :: "Location \<Rightarrow> Region" where
  "region_at location =
     \<lparr>latitude = latitude (coords location), longitude = longitude (coords location),
      latitudeDelta = 0.005, longitudeDelta = 0.005\<rparr>"

text \<open>The \<open>catch\<close> block and the \<open>finally\<close> block of the effect.\<close>

definition initialize_catch :: "string \<Rightarrow> state \<Rightarrow> state \<times> effect list" where
  "initialize_catch error s =
     (s\<lparr>errorMsg := Some ''Could not fetch location. Please check your GPS settings.'',
        region := Some default_region\<rparr>,
      [ConsoleError ''Location error:'' error])"

definition initialize_finally :: "state \<Rightarrow> state" where
  "initialize_finally s = s\<lparr>loadingLocation := False, loading := False\<rparr>"

text \<open>
  The \<open>try\<close> block. The second promise is awaited only after the first one resolved
  with status \<open>granted\<close>; the early \<open>return\<close> of the denial branch still runs
  \<open>finally\<close>.
\<close>

definition initialize_try ::
  "PermissionResponse awaited \<Rightarrow> Location awaited \<Rightarrow> state \<Rightarrow> state \<times> effect list" where
  "initialize_try permission fetch s =
     (case permission of
        Rejected error \<Rightarrow>
          (let (s', effs) = initialize_catch error s
           in (s', RequestForegroundPermissions # effs))
      | Resolved response \<Rightarrow>
          if status response \<noteq> ''granted'' then
            (s\<lparr>errorMsg := Some ''Permission to access location was denied'',
               loadingLocation := False\<rparr>,
             [RequestForegroundPermissions])
          else
            (case fetch of
               Rejected error \<Rightarrow>
                 (let (s', effs) = initialize_catch error s
                  in (s', RequestForegroundPermissions
                          # GetCurrentPosition \<lparr>accuracy = Highest, maximumAge = Some 10000\<rparr>
                          # effs))
             | Resolved location \<Rightarrow>
                 (s\<lparr>region := Some (region_at location)\<rparr>,
                  [RequestForegroundPermissions,
                   GetCurrentPosition \<lparr>accuracy = Highest, maximumAge = Some 10000\<rparr>])))"

definition initialize ::
  "PermissionResponse awaited \<Rightarrow> Location awaited \<Rightarrow> state \<Rightarrow> state \<times> effect list" where
  "initialize permission fetch s =
     (let (s', effs) = initialize_try permission fetch (s\<lparr>loading := True, loadingLocation := True\<rparr>)
      in (initialize_finally s', effs))"

section \<open>Handlers\<close>

definition handleMapPress :: "PressEvent \<Rightarrow> state \<Rightarrow> state" where
  "handleMapPress event s =
     (if isSelecting s
      then s\<lparr>polygonPoints := polygonPoints s @ [coordinate (nativeEvent event)]\<rparr>
      else s)"

text \<open>
  The handler is a closure of the render that created it: the \<open>isSelecting\<close> it tests
  and the \<open>polygonPoints\<close> it spreads are the ones of that render, whatever setter was
  called since. \<open>setPolygonPoints\<close> is called with a value, not with an updater, so the
  call replaces the points of the state that is rendered next. \<open>handleMapPress\<close> above
  is the case of a render with no setter call pending.
\<close>

definition handleMapPress_in :: "state \<Rightarrow> PressEvent \<Rightarrow> state \<Rightarrow> state" where
  "handleMapPress_in rendered event pending =
     (if isSelecting rendered
      then pending\<lparr>polygonPoints := polygonPoints rendered @ [coordinate (nativeEvent event)]\<rparr>
      else pending)"

definition resetSelection :: "state \<Rightarrow> state" where
  "resetSelection s = s\<lparr>polygonPoints := [], isSelecting := True\<rparr>"

text \<open>
  \<open>Array.prototype.slice(start, end)\<close>: a negative index counts from the end of the
  array, both indices are clamped to the array, and an empty range gives the empty array.
\<close>

definition slice :: "int \<Rightarrow> int \<Rightarrow> 'a list \<Rightarrow> 'a list" where
  "slice start fin xs =
     (let len = int (length xs);
          k = (if start < 0 then max (len + start) 0 else min start len);
          final = (if fin < 0 then max (len + fin) 0 else min fin len)
      in take (nat (final - k)) (drop (nat k) xs))"

definition undoLastPoint :: "state \<Rightarrow> state" where
  "undoLastPoint s =
     (if length (polygonPoints s) > 0
      then s\<lparr>polygonPoints := slice 0 (- 1) (polygonPoints s)\<rparr>
      else s)"

text \<open>
  \<open>completePolygon\<close> calls no state setter. \<open>JSON.stringify\<close> belongs to the language
  runtime and is a parameter of the model.
\<close>

definition completePolygon :: "(LatLng list \<Rightarrow> string) \<Rightarrow> state \<Rightarrow> effect list" where
  "completePolygon JSON_stringify s =
     (if length (polygonPoints s) \<ge> 3
      then [RouterPush ''/(tabs)/travel/routescreen''
              [(''polygonData'', JSON_stringify (polygonPoints s))]]
      else [Alert ''Please select at least 3 points to form a valid area''])"

text \<open>JavaScript truthiness of a value that is a string or \<open>null\<close>.\<close>

definition truthy :: "string option \<Rightarrow> bool" where
  "truthy m = (case m of None \<Rightarrow> False | Some str \<Rightarrow> str \<noteq> [])"

text \<open>The three \<open>return\<close> statements of the component body, in their order.\<close>

datatype screen = LoadingScreen | ErrorScreen | MapScreen

definition render :: "state \<Rightarrow> screen" where
  "render s =
     (if loading s then LoadingScreen
      else if truthy (errorMsg s) \<and> region s = None then ErrorScreen
      else MapScreen)"

text \<open>
  \<open>mapRef.current\<close> is attached by the \<open>MapView\<close> element, which only the third
  \<open>return\<close> renders.
\<close>

definition mapRef_current :: "state \<Rightarrow> bool" where
  "mapRef_current s = (render s = MapScreen)"

text \<open>\<open>centerOnLocation\<close> calls no state setter either.\<close>

definition centerOnLocation :: "Location awaited \<Rightarrow> state \<Rightarrow> effect list" where
  "centerOnLocation fetch s =
     (if region s \<noteq> None then
        GetCurrentPosition \<lparr>accuracy = Highest, maximumAge = None\<rparr> #
        (case fetch of
           Resolved location \<Rightarrow>
             (if mapRef_current s then [AnimateToRegion (region_at location) 1000] else [])
         | Rejected error \<Rightarrow>
             [Alert ''Could not get current location'',
              ConsoleError ''Location error:'' error])
      else [])"

text \<open>The \<open>onPress\<close> of the retry button of the error view.\<close>

definition retryButton_onPress :: "state \<Rightarrow> state" where
  "retryButton_onPress s = s\<lparr>errorMsg := None, loading := True, loadingLocation := True\<rparr>"

section \<open>The screen as a transition system\<close>

text \<open>
  A user event reaches a handler only through a control of the view that is on screen:
  the loading view has none, the error view has the retry button, the map view has the
  map, the locate button, undo and reset (both disabled while there is no point) and the
  complete button (rendered while \<open>isSelecting && polygonPoints.length >= 3\<close>).
\<close>

datatype user_event =
    MapPress PressEvent
  | PressUndo
  | PressReset
  | PressComplete
  | PressLocate "Location awaited"
  | PressRetry

definition complete_shown :: "state \<Rightarrow> bool" where
  "complete_shown s = (isSelecting s \<and> length (polygonPoints s) \<ge> 3)"

definition on_map_screen ::
  "(LatLng list \<Rightarrow> string) \<Rightarrow> user_event \<Rightarrow> state \<Rightarrow> state \<times> effect list" where
  "on_map_screen JSON_stringify e s =
     (case e of
        MapPress event \<Rightarrow> (handleMapPress event s, [])
      | PressUndo \<Rightarrow> (if length (polygonPoints s) = 0 then s else undoLastPoint s, [])
      | PressReset \<Rightarrow> (if length (polygonPoints s) = 0 then s else resetSelection s, [])
      | PressComplete \<Rightarrow> (s, if complete_shown s then completePolygon JSON_stringify s else [])
      | PressLocate fetch \<Rightarrow> (s, centerOnLocation fetch s)
      | PressRetry \<Rightarrow> (s, []))"

definition dispatch ::
  "(LatLng list \<Rightarrow> string) \<Rightarrow> user_event \<Rightarrow> state \<Rightarrow> state \<times> effect list" where
  "dispatch JSON_stringify e s =
     (case render s of
        LoadingScreen \<Rightarrow> (s, [])
      | ErrorScreen \<Rightarrow> (case e of PressRetry \<Rightarrow> (retryButton_onPress s, []) | _ \<Rightarrow> (s, []))
      | MapScreen \<Rightarrow> on_map_screen JSON_stringify e s)"

text \<open>
  The effect has the dependency list \<open>[]\<close>: it runs once, after the first render.
  Afterwards the state changes by user events only.
\<close>

inductive reachable :: "state \<Rightarrow> bool" where
  first_render: "reachable initial_state"
| mounted: "reachable (fst (initialize permission fetch initial_state))"
| event: "reachable s \<Longrightarrow> reachable (fst (dispatch JSON_stringify e s))"

text \<open>A session: the events in order, with the effects they issue.\<close>

fun run ::
  "(LatLng list \<Rightarrow> string) \<Rightarrow> user_event list \<Rightarrow> state \<Rightarrow> state \<times> effect list" where
  "run JSON_stringify [] s = (s, [])"
| "run JSON_stringify (e # es) s =
     (let (s', effs) = dispatch JSON_stringify e s;
          (s'', effs') = run JSON_stringify es s'
      in (s'', effs @ effs'))"

text \<open>
  The presses that the handler of one render receives, in order, before the component
  renders again: each call sees the same captured state.
\<close>

fun presses_in_render :: "state \<Rightarrow> PressEvent list \<Rightarrow> state \<Rightarrow> state" where
  "presses_in_render rendered [] pending = pending"
| "presses_in_render rendered (event # events) pending =
     presses_in_render rendered events (handleMapPress_in rendered event pending)"


definition navigates :: "effect list \<Rightarrow> bool" where
  "navigates effs = list_ex (\<lambda>eff. case eff of RouterPush _ _ \<Rightarrow> True | _ \<Rightarrow> False) effs"

definition warns :: "effect list \<Rightarrow> bool" where
  "warns effs = list_ex (\<lambda>eff. case eff of Alert _ \<Rightarrow> True | _ \<Rightarrow> False) effs"

text \<open>
  Two properties of a state that the transitions keep: the screen has a region or says
  why it has none, and a screen without region and points never gets either.
\<close>

definition located :: "state \<Rightarrow> bool" where
  "located s = (loading s \<or> region s \<noteq> None \<or> truthy (errorMsg s))"

definition blocked :: "state \<Rightarrow> bool" where
  "blocked s = (region s = None \<and> polygonPoints s = [] \<and> (loading s \<or> truthy (errorMsg s)))"

section \<open>Sample inputs\<close>

definition pt :: "real \<Rightarrow> real \<Rightarrow> LatLng" where
  "pt la lo = \<lparr>latitude = la, longitude = lo\<rparr>"

definition press :: "real \<Rightarrow> real \<Rightarrow> PressEvent" where
  "press la lo = \<lparr>nativeEvent = \<lparr>coordinate = pt la lo\<rparr>\<rparr>"

definition granted :: "PermissionResponse awaited" where
  "granted = Resolved \<lparr>status = ''granted''\<rparr>"

definition denied :: "PermissionResponse awaited" where
  "denied = Resolved \<lparr>status = ''denied''\<rparr>"

definition here :: "Location awaited" where
  "here = Resolved \<lparr>coords = pt 18.5 73.8\<rparr>"

section \<open>Invariants of the transition system\<close>

lemma slice_butlast: "slice 0 (- 1) xs = butlast xs"
  by (cases xs rule: rev_cases) (simp_all add: slice_def)

lemma handleMapPress_in_same: "handleMapPress_in s event s = handleMapPress event s"
  by (simp add: handleMapPress_in_def handleMapPress_def)

lemma presses_in_render_last:
  "isSelecting rendered \<Longrightarrow> events \<noteq> [] \<Longrightarrow>
     presses_in_render rendered events pending
       = pending\<lparr>polygonPoints := polygonPoints rendered @ [coordinate (nativeEvent (last events))]\<rparr>"
proof (induction events arbitrary: pending)
  case Nil
  then show ?case by simp
next
  case (Cons event events)
  show ?case
  proof (cases "events = []")
    case True
    with Cons.prems show ?thesis by (simp add: handleMapPress_in_def)
  next
    case False
    with Cons show ?thesis by (simp add: handleMapPress_in_def)
  qed
qed



lemma initialize_isSelecting: "isSelecting (fst (initialize p f s)) = isSelecting s"
  by (simp add: initialize_def initialize_try_def initialize_catch_def initialize_finally_def
      split: awaited.splits prod.splits)

lemma dispatch_isSelecting: "isSelecting s \<Longrightarrow> isSelecting (fst (dispatch js e s))"
  by (simp add: dispatch_def on_map_screen_def handleMapPress_def undoLastPoint_def
      resetSelection_def retryButton_onPress_def split: screen.splits user_event.splits)

lemma reachable_isSelecting: "reachable s \<Longrightarrow> isSelecting s"
  by (induction rule: reachable.induct)
     (simp_all add: initial_state_def initialize_isSelecting dispatch_isSelecting)

lemma initialize_located: "located (fst (initialize p f s))"
  by (simp add: located_def initialize_def initialize_try_def initialize_catch_def
      initialize_finally_def truthy_def split: awaited.splits prod.splits)

lemma dispatch_located: "located s \<Longrightarrow> located (fst (dispatch js e s))"
  by (simp add: located_def dispatch_def on_map_screen_def handleMapPress_def undoLastPoint_def
      resetSelection_def retryButton_onPress_def split: screen.splits user_event.splits)

lemma reachable_located: "reachable s \<Longrightarrow> located s"
  by (induction rule: reachable.induct)
     (simp_all add: initialize_located dispatch_located, simp add: located_def initial_state_def)

lemma map_screen_region: "reachable s \<Longrightarrow> render s = MapScreen \<Longrightarrow> region s \<noteq> None"
  using reachable_located [of s] by (auto simp: located_def render_def split: if_splits)

lemma dispatch_loading: "loading s \<Longrightarrow> dispatch js e s = (s, [])"
  by (simp add: dispatch_def render_def)

lemma run_loading: "loading s \<Longrightarrow> run js es s = (s, [])"
  by (induction es) (simp_all add: dispatch_loading)

lemma dispatch_blocked: "blocked s \<Longrightarrow> blocked (fst (dispatch js e s))"
  by (auto simp: blocked_def dispatch_def render_def retryButton_onPress_def
      split: user_event.splits)

lemma run_blocked: "blocked s \<Longrightarrow> blocked (fst (run js es s))"
proof (induction es arbitrary: s)
  case Nil
  then show ?case by simp
next
  case (Cons e es)
  from Cons.prems have "blocked (fst (dispatch js e s))" by (rule dispatch_blocked)
  then have "blocked (fst (run js es (fst (dispatch js e s))))" by (rule Cons.IH)
  then show ?case by (simp add: split_beta)
qed

lemma blocked_no_map: "blocked s \<Longrightarrow> render s \<noteq> MapScreen"
  by (auto simp: blocked_def render_def)

lemma map_screen_stays: "render s = MapScreen \<Longrightarrow> render (fst (dispatch js e s)) = MapScreen"
  by (auto simp: dispatch_def on_map_screen_def render_def handleMapPress_def undoLastPoint_def
      resetSelection_def split: user_event.splits if_splits)

section \<open>Completing the polygon\<close>

text \<open>
  Claim C1. \<open>completePolygon\<close> pushes the route-planning screen, with the serialized
  points as \<open>polygonData\<close>, exactly when there are at least three points. With zero, one
  or two points it does not navigate and raises the alert. The number of points is the
  only thing it looks at: with three or more points the push happens whatever the
  coordinates are.
\<close>

theorem completePolygon_gate:
  "(navigates (completePolygon js s) \<longleftrightarrow> 3 \<le> length (polygonPoints s))
   \<and> (length (polygonPoints s) \<in> {0, 1, 2} \<longrightarrow>
        \<not> navigates (completePolygon js s) \<and> warns (completePolygon js s)
        \<and> completePolygon js s = [Alert ''Please select at least 3 points to form a valid area''])
   \<and> (3 \<le> length (polygonPoints s) \<longrightarrow>
        completePolygon js s =
          [RouterPush ''/(tabs)/travel/routescreen'' [(''polygonData'', js (polygonPoints s))]])"
  by (simp add: completePolygon_def navigates_def warns_def)

theorem completePolygon_gate_witness:
  "length (polygonPoints (initial_state\<lparr>polygonPoints := [pt 0 0, pt 0 0]\<rparr>)) \<in> {0, 1, 2}
   \<and> completePolygon (\<lambda>ps. ''[]'') (initial_state\<lparr>polygonPoints := [pt 0 0, pt 0 0]\<rparr>)
       = [Alert ''Please select at least 3 points to form a valid area'']
   \<and> 3 \<le> length (polygonPoints (initial_state\<lparr>polygonPoints := [pt 0 0, pt 1 1, pt 0 0]\<rparr>))
   \<and> completePolygon (\<lambda>ps. ''[]'') (initial_state\<lparr>polygonPoints := [pt 0 0, pt 1 1, pt 0 0]\<rparr>)
       = [RouterPush ''/(tabs)/travel/routescreen'' [(''polygonData'', ''[]'')]]"
  using completePolygon_gate [of "\<lambda>ps. ''[]''" "initial_state\<lparr>polygonPoints := [pt 0 0, pt 0 0]\<rparr>"]
    completePolygon_gate [of "\<lambda>ps. ''[]''" "initial_state\<lparr>polygonPoints := [pt 0 0, pt 1 1, pt 0 0]\<rparr>"]
  by simp

section \<open>Collecting points\<close>




text \<open>
  Claim C3. On the map view with no point yet, pressing the map at A, B and C and then
  the complete button makes the router receive the serialization of the list A, B, C in
  that order, and nothing else is issued.
\<close>

theorem three_taps_then_complete:
  assumes "reachable s" and "render s = MapScreen" and "polygonPoints s = []"
  shows "snd (run js [MapPress evA, MapPress evB, MapPress evC, PressComplete] s)
           = [RouterPush ''/(tabs)/travel/routescreen''
                [(''polygonData'',
                  js [coordinate (nativeEvent evA), coordinate (nativeEvent evB),
                      coordinate (nativeEvent evC)])]]"
proof -
  have sel: "isSelecting s" using assms(1) by (rule reachable_isSelecting)
  have scr: "\<not> loading s \<and> \<not> (truthy (errorMsg s) \<and> region s = None)"
    using assms(2) by (auto simp: render_def split: if_splits)
  show ?thesis
    using sel scr assms(3)
    by (simp add: dispatch_def on_map_screen_def render_def handleMapPress_def
        complete_shown_def completePolygon_def)
qed

theorem three_taps_then_complete_witness:
  "reachable (fst (initialize granted here initial_state))
   \<and> render (fst (initialize granted here initial_state)) = MapScreen
   \<and> polygonPoints (fst (initialize granted here initial_state)) = []
   \<and> snd (run (\<lambda>ps. ''s'') [MapPress (press 1 1), MapPress (press 2 2), MapPress (press 3 3), PressComplete]
        (fst (initialize granted here initial_state)))
       = [RouterPush ''/(tabs)/travel/routescreen'' [(''polygonData'', ''s'')]]"
proof -
  let ?s = "fst (initialize granted here initial_state)"
  have r: "reachable ?s" by (rule reachable.mounted)
  have m: "render ?s = MapScreen"
    by (simp add: initialize_def initialize_try_def initialize_finally_def granted_def here_def
        initial_state_def render_def)
  have p: "polygonPoints ?s = []"
    by (simp add: initialize_def initialize_try_def initialize_finally_def granted_def here_def
        initial_state_def)
  show ?thesis
    using r m p three_taps_then_complete [OF r m p, of "\<lambda>ps. ''s''" "press 1 1" "press 2 2" "press 3 3"]
    by simp
qed


section \<open>The retry button\<close>

text \<open>
  Claim C4, which the code does not meet. After a denied permission request the error
  view is on screen. Pressing its retry button puts the state back to the one of the
  first render and issues nothing: no permission request and no position request. The
  effect that would issue them has run already, so the loading view, which has no
  control, stays on screen whatever is pressed afterwards.
\<close>

theorem retry_issues_no_request:
  "render (fst (initialize denied here initial_state)) = ErrorScreen
   \<and> dispatch js PressRetry (fst (initialize denied here initial_state))
       = (initial_state, [])
   \<and> render initial_state = LoadingScreen
   \<and> run js es initial_state = (initial_state, [])"
proof -
  have l: "loading initial_state" by (simp add: initial_state_def)
  have d: "fst (initialize denied here initial_state)
             = initial_state\<lparr>errorMsg := Some ''Permission to access location was denied'',
                  loadingLocation := False, loading := False\<rparr>"
    by (simp add: initialize_def initialize_try_def initialize_finally_def denied_def)
  have "render (fst (initialize denied here initial_state)) = ErrorScreen"
    by (simp add: d) (simp add: render_def truthy_def initial_state_def)
  moreover have "dispatch js PressRetry (fst (initialize denied here initial_state)) = (initial_state, [])"
    by (simp add: d) (simp add: dispatch_def render_def truthy_def initial_state_def retryButton_onPress_def)
  moreover have "render initial_state = LoadingScreen" using l by (simp add: render_def)
  moreover have "run js es initial_state = (initial_state, [])" using l by (rule run_loading)
  ultimately show ?thesis by simp
qed

section \<open>Outcomes of the mount effect\<close>

text \<open>
  Claim C5. When the permission request resolves with a status other than \<open>granted\<close>,
  the effect records the denial message and issues no position request; the region is
  still absent and the error view is rendered. From there no sequence of user events
  adds a point, sets a region or brings up the map view.
\<close>

theorem permission_denied_blocks_map:
  assumes "status response \<noteq> ''granted''"
  shows "errorMsg (fst (initialize (Resolved response) fetch initial_state))
           = Some ''Permission to access location was denied''
         \<and> region (fst (initialize (Resolved response) fetch initial_state)) = None
         \<and> snd (initialize (Resolved response) fetch initial_state) = [RequestForegroundPermissions]
         \<and> render (fst (initialize (Resolved response) fetch initial_state)) = ErrorScreen
         \<and> polygonPoints (fst (run js es (fst (initialize (Resolved response) fetch initial_state)))) = []
         \<and> region (fst (run js es (fst (initialize (Resolved response) fetch initial_state)))) = None
         \<and> render (fst (run js es (fst (initialize (Resolved response) fetch initial_state)))) \<noteq> MapScreen"
proof -
  let ?s = "fst (initialize (Resolved response) fetch initial_state)"
  have d: "?s = initial_state\<lparr>errorMsg := Some ''Permission to access location was denied'',
                  loadingLocation := False, loading := False\<rparr>"
    using assms by (simp add: initialize_def initialize_try_def initialize_finally_def)
  have e: "snd (initialize (Resolved response) fetch initial_state) = [RequestForegroundPermissions]"
    using assms by (simp add: initialize_def initialize_try_def initialize_finally_def)
  have v: "render ?s = ErrorScreen"
    by (simp add: d) (simp add: render_def truthy_def initial_state_def)
  have b: "blocked ?s"
    by (simp add: d) (simp add: blocked_def truthy_def initial_state_def)
  have rb: "blocked (fst (run js es ?s))" using b by (rule run_blocked)
  have nm: "render (fst (run js es ?s)) \<noteq> MapScreen" using rb by (rule blocked_no_map)
  have m: "errorMsg ?s = Some ''Permission to access location was denied''"
    by (simp add: d)
  have g: "region ?s = None"
    by (simp add: d) (simp add: initial_state_def)
  show ?thesis
    using e v rb nm m g by (simp add: blocked_def)
qed

theorem permission_denied_blocks_map_witness:
  "status \<lparr>status = ''denied''\<rparr> \<noteq> ''granted''
   \<and> render (fst (initialize (Resolved \<lparr>status = ''denied''\<rparr>) here initial_state)) = ErrorScreen
   \<and> region (fst (initialize (Resolved \<lparr>status = ''denied''\<rparr>) here initial_state)) = None
   \<and> polygonPoints (fst (run (\<lambda>ps. ''s'') [MapPress (press 1 1), PressRetry, MapPress (press 2 2)]
        (fst (initialize (Resolved \<lparr>status = ''denied''\<rparr>) here initial_state)))) = []"
proof -
  have h: "status \<lparr>status = ''denied''\<rparr> \<noteq> ''granted''" by simp
  show ?thesis
    using h permission_denied_blocks_map [OF h, of here "\<lambda>ps. ''s''" "[MapPress (press 1 1), PressRetry, MapPress (press 2 2)]"]
    by simp
qed

text \<open>
  Claim C6. When permission is granted and the position request throws, the effect sets
  the region to the default one (37.78825, -122.4324, 0.015, 0.0121), records the
  error message, ends loading, and the map view is rendered.
\<close>

theorem fetch_failure_falls_back:
  assumes "status response = ''granted''"
  shows "region (fst (initialize (Resolved response) (Rejected error) s))
           = Some \<lparr>latitude = 37.78825, longitude = -122.4324,
                   latitudeDelta = 0.015, longitudeDelta = 0.0121\<rparr>
         \<and> errorMsg (fst (initialize (Resolved response) (Rejected error) s))
           = Some ''Could not fetch location. Please check your GPS settings.''
         \<and> loading (fst (initialize (Resolved response) (Rejected error) s)) = False
         \<and> render (fst (initialize (Resolved response) (Rejected error) s)) = MapScreen
         \<and> polygonPoints (fst (initialize (Resolved response) (Rejected error) s)) = polygonPoints s"
  using assms
  by (simp add: initialize_def initialize_try_def initialize_catch_def initialize_finally_def
      default_region_def render_def)

theorem fetch_failure_falls_back_witness:
  "status \<lparr>status = ''granted''\<rparr> = ''granted''
   \<and> region (fst (initialize granted (Rejected ''timeout'') initial_state)) = Some default_region
   \<and> render (fst (initialize granted (Rejected ''timeout'') initial_state)) = MapScreen"
proof -
  have h: "status \<lparr>status = ''granted''\<rparr> = ''granted''" by simp
  show ?thesis
    using h fetch_failure_falls_back [OF h, of "''timeout''" initial_state]
    by (simp add: granted_def default_region_def)
qed

section \<open>Reset and undo\<close>

text \<open>
  Claim C7. After \<open>resetSelection\<close>, from any state, there are no points and
  \<open>isSelecting\<close> is true.
\<close>

theorem resetSelection_clears:
  "length (polygonPoints (resetSelection s)) = 0 \<and> isSelecting (resetSelection s) = True"
  by (simp add: resetSelection_def)

text \<open>
  Claim C8. On a non-empty list of points \<open>undoLastPoint\<close> leaves the list without its
  last element and changes nothing else; on the empty list it leaves the state as it is.
\<close>

theorem undoLastPoint_removes_last:
  "(polygonPoints s \<noteq> [] \<longrightarrow>
      polygonPoints (undoLastPoint s) = butlast (polygonPoints s)
      \<and> polygonPoints (undoLastPoint s) @ [last (polygonPoints s)] = polygonPoints s
      \<and> undoLastPoint s = s\<lparr>polygonPoints := butlast (polygonPoints s)\<rparr>)
   \<and> (polygonPoints s = [] \<longrightarrow>
        undoLastPoint s = s \<and> length (polygonPoints (undoLastPoint s)) = 0)"
  by (simp add: undoLastPoint_def slice_butlast)

theorem undoLastPoint_removes_last_witness:
  "polygonPoints (initial_state\<lparr>polygonPoints := [pt 1 1, pt 2 2, pt 3 3]\<rparr>) \<noteq> []
   \<and> polygonPoints (undoLastPoint (initial_state\<lparr>polygonPoints := [pt 1 1, pt 2 2, pt 3 3]\<rparr>))
       = [pt 1 1, pt 2 2]
   \<and> polygonPoints initial_state = []
   \<and> undoLastPoint initial_state = initial_state"
  using undoLastPoint_removes_last [of "initial_state\<lparr>polygonPoints := [pt 1 1, pt 2 2, pt 3 3]\<rparr>"]
    undoLastPoint_removes_last [of initial_state]
  by (simp add: initial_state_def)

section \<open>Recentring the map\<close>

text \<open>
  Claim C9. Wherever the locate button exists, that is on the map view of a reachable
  state, \<open>centerOnLocation\<close> requests the position with the highest accuracy and no
  \<open>maximumAge\<close>. When the request resolves, it animates the map to the region around
  that position over 1000 ms; when it throws, it raises the alert. In both cases the
  state is the one before the press.
\<close>

theorem centerOnLocation_recenters:
  assumes "reachable s" and "render s = MapScreen"
  shows "centerOnLocation (Resolved location) s
           = [GetCurrentPosition \<lparr>accuracy = Highest, maximumAge = None\<rparr>,
              AnimateToRegion \<lparr>latitude = latitude (coords location),
                               longitude = longitude (coords location),
                               latitudeDelta = 0.005, longitudeDelta = 0.005\<rparr> 1000]
         \<and> centerOnLocation (Rejected error) s
           = [GetCurrentPosition \<lparr>accuracy = Highest, maximumAge = None\<rparr>,
              Alert ''Could not get current location'',
              ConsoleError ''Location error:'' error]
         \<and> dispatch js (PressLocate fetch) s = (s, centerOnLocation fetch s)"
proof -
  have "region s \<noteq> None" using assms by (rule map_screen_region)
  then show ?thesis
    using assms(2)
    by (simp add: centerOnLocation_def mapRef_current_def region_at_def dispatch_def
        on_map_screen_def)
qed

theorem centerOnLocation_recenters_witness:
  "reachable (fst (initialize granted here initial_state))
   \<and> render (fst (initialize granted here initial_state)) = MapScreen
   \<and> dispatch (\<lambda>ps. ''s'') (PressLocate (Rejected ''off'')) (fst (initialize granted here initial_state))
       = (fst (initialize granted here initial_state),
          [GetCurrentPosition \<lparr>accuracy = Highest, maximumAge = None\<rparr>,
           Alert ''Could not get current location'',
           ConsoleError ''Location error:'' ''off''])"
proof -
  let ?s = "fst (initialize granted here initial_state)"
  have r: "reachable ?s" by (rule reachable.mounted)
  have m: "render ?s = MapScreen"
    by (simp add: initialize_def initialize_try_def initialize_finally_def granted_def here_def
        initial_state_def render_def)
  show ?thesis
    using r m centerOnLocation_recenters [OF r m, of _ "''off''" "\<lambda>ps. ''s''" "Rejected ''off''"]
    by simp
qed

section \<open>The selection flag\<close>

text \<open>
  Claim C10. \<open>isSelecting\<close> starts true and every function that returns a state keeps
  it or sets it to true. So it is true in every reachable state, where a press on the
  map therefore always appends its coordinate and the complete button is shown exactly
  when there are at least three points.
\<close>

theorem isSelecting_always:
  "isSelecting initial_state
   \<and> isSelecting (fst (initialize permission fetch s)) = isSelecting s
   \<and> isSelecting (retryButton_onPress s) = isSelecting s
   \<and> isSelecting (undoLastPoint s) = isSelecting s
   \<and> isSelecting (handleMapPress event s) = isSelecting s
   \<and> isSelecting (resetSelection s)
   \<and> (reachable s \<longrightarrow>
        isSelecting s
        \<and> handleMapPress event s = s\<lparr>polygonPoints := polygonPoints s @ [coordinate (nativeEvent event)]\<rparr>
        \<and> complete_shown s = (3 \<le> length (polygonPoints s)))"
proof -
  have "reachable s \<longrightarrow> isSelecting s" by (simp add: reachable_isSelecting)
  then show ?thesis
    by (auto simp: initial_state_def initialize_isSelecting retryButton_onPress_def undoLastPoint_def
        handleMapPress_def resetSelection_def complete_shown_def)
qed

theorem isSelecting_always_witness:
  "reachable (fst (initialize granted here initial_state))
   \<and> isSelecting (fst (initialize granted here initial_state))
   \<and> polygonPoints (handleMapPress (press 1 1) (fst (initialize granted here initial_state))) = [pt 1 1]
   \<and> \<not> complete_shown (fst (initialize granted here initial_state))"
proof -
  let ?s = "fst (initialize granted here initial_state)"
  have r: "reachable ?s" by (rule reachable.mounted)
  have p: "polygonPoints ?s = []"
    by (simp add: initialize_def initialize_try_def initialize_finally_def granted_def here_def
        initial_state_def)
  show ?thesis
    using r p isSelecting_always [of _ _ ?s "press 1 1"]
    by (simp add: press_def)
qed

end
